theory Spec2Isabelle
  imports Main "HOL-Library.Sublist"
begin

section \<open>Flight lookup: data model\<close>

text \<open>
  The two interfaces of \<^verbatim>\<open>FlightCard.tsx\<close>. A JavaScript string is modelled as a
  \<^typ>\<open>string\<close>, one \<^typ>\<open>char\<close> per code unit, which covers the code units
  \<open>0x00\<close> to \<open>0xFF\<close> (Basic Latin and Latin-1 Supplement).
\<close>

record FlightLocation =
  code :: string
  city :: string
  terminal :: string

record Flight =
  flightNumber :: string
  airline :: string
  origin :: FlightLocation
  destination :: FlightLocation
  departureTime :: string
  arrivalTime :: string
  status :: string
  gate :: string

text \<open>The module-level constant \<^verbatim>\<open>MOCK_FLIGHTS\<close> of the route handler.\<close>

definition MOCK_FLIGHTS :: "Flight list" where
  "MOCK_FLIGHTS =
    [ \<lparr> flightNumber = ''AA123'',
        airline = ''American Airlines'',
        origin = \<lparr> code = ''JFK'', city = ''New York'', terminal = ''8'' \<rparr>,
        destination = \<lparr> code = ''LHR'', city = ''London'', terminal = ''3'' \<rparr>,
        departureTime = ''2025-12-08T18:00:00Z'',
        arrivalTime = ''2025-12-09T06:00:00Z'',
        status = ''On Time'',
        gate = ''B12'' \<rparr>,
      \<lparr> flightNumber = ''UA456'',
        airline = ''United Airlines'',
        origin = \<lparr> code = ''SFO'', city = ''San Francisco'', terminal = ''3'' \<rparr>,
        destination = \<lparr> code = ''NRT'', city = ''Tokyo'', terminal = ''1'' \<rparr>,
        departureTime = ''2025-12-08T11:00:00Z'',
        arrivalTime = ''2025-12-09T15:00:00Z'',
        status = ''Delayed'',
        gate = ''G4'' \<rparr>,
      \<lparr> flightNumber = ''DL789'',
        airline = ''Delta'',
        origin = \<lparr> code = ''ATL'', city = ''Atlanta'', terminal = ''S'' \<rparr>,
        destination = \<lparr> code = ''CDG'', city = ''Paris'', terminal = ''2E'' \<rparr>,
        departureTime = ''2025-12-08T20:30:00Z'',
        arrivalTime = ''2025-12-09T10:45:00Z'',
        status = ''Boarding'',
        gate = ''E14'' \<rparr> ]"


section \<open>The string operations the handler calls\<close>

text \<open>
  \<^verbatim>\<open>String.prototype.toLowerCase\<close> on the modelled code units: the letters
  \<open>A\<close> to \<open>Z\<close> (65 to 90) and the capital letters of the Latin-1 Supplement
  (192 to 222, the multiplication sign 215 apart) move up by 32; every other code
  unit below 256 is its own lower case.
\<close>

definition toLowerCaseUnit :: "char \<Rightarrow> char" where
  "toLowerCaseUnit c =
     (let n = (of_char c :: nat)
      in if (65 \<le> n \<and> n \<le> 90) \<or> (192 \<le> n \<and> n \<le> 222 \<and> n \<noteq> 215)
         then char_of (n + 32) else c)"

definition toLowerCase :: "string \<Rightarrow> string" where
  "toLowerCase s = map toLowerCaseUnit s"

text \<open>
  \<^verbatim>\<open>String.prototype.includes\<close> with its default start position 0: the search
  string is tried at every start index of the receiver, the end of the string
  included (where only the empty search string fits).
\<close>

fun startsAt :: "string \<Rightarrow> string \<Rightarrow> bool" where
  "startsAt s [] = True"
| "startsAt [] (q # qs) = False"
| "startsAt (c # cs) (q # qs) = (c = q \<and> startsAt cs qs)"

fun String_includes :: "string \<Rightarrow> string \<Rightarrow> bool" where
  "String_includes [] q = (q = [])"
| "String_includes (c # cs) q = (startsAt (c # cs) q \<or> String_includes cs q)"


section \<open>The route handler\<close>

text \<open>
  The filter of \<^verbatim>\<open>GET\<close> (the constant \<^verbatim>\<open>matches\<close>), with the array it
  filters as a parameter. \<^verbatim>\<open>Array.prototype.filter\<close> builds a new array and leaves
  its receiver as it was.
\<close>

definition matches :: "string \<Rightarrow> Flight list \<Rightarrow> Flight list" where
  "matches flightNumber' store =
     filter (\<lambda>flight. String_includes (toLowerCase (flightNumber flight))
                                      (toLowerCase flightNumber')) store"

text \<open>
  The request, as far as \<^verbatim>\<open>GET\<close> reads it: the decoded query parameters of
  \<^verbatim>\<open>new URL(request.url)\<close>, in the order of the URL. Everything else a request
  carries is the extension of the record.
\<close>

record Request =
  searchParams :: "(string \<times> string) list"

text \<open>
  \<^verbatim>\<open>URLSearchParams.get\<close>: the value of the first pair with the given name,
  \<^verbatim>\<open>null\<close> (here \<open>None\<close>) when there is none.
\<close>

fun URLSearchParams_get :: "(string \<times> string) list \<Rightarrow> string \<Rightarrow> string option" where
  "URLSearchParams_get [] name = None"
| "URLSearchParams_get ((k, v) # ps) name =
     (if k = name then Some v else URLSearchParams_get ps name)"

text \<open>The JSON values the handler emits, and the response that carries one.\<close>

datatype json =
    JString string
  | JArray "json list"
  | JObject "(string \<times> json) list"

record Response =
  http_status :: nat
  http_body :: json

text \<open>
  \<^verbatim>\<open>NextResponse.json(body, init)\<close>: the status of \<^verbatim>\<open>init\<close> when it is given,
  200 otherwise.
\<close>

definition NextResponse_json :: "json \<Rightarrow> nat option \<Rightarrow> Response" where
  "NextResponse_json b init_status =
     \<lparr> http_status = (case init_status of None \<Rightarrow> 200 | Some st \<Rightarrow> st), http_body = b \<rparr>"

text \<open>
  What serialising a flight object yields: its own properties in the order the
  object literal lists them, the two locations nested.
\<close>

definition FlightLocation_json :: "FlightLocation \<Rightarrow> json" where
  "FlightLocation_json l =
     JObject [(''code'', JString (code l)),
              (''city'', JString (city l)),
              (''terminal'', JString (terminal l))]"

definition Flight_json :: "Flight \<Rightarrow> json" where
  "Flight_json f =
     JObject [(''flightNumber'', JString (flightNumber f)),
              (''airline'', JString (airline f)),
              (''origin'', FlightLocation_json (origin f)),
              (''destination'', FlightLocation_json (destination f)),
              (''departureTime'', JString (departureTime f)),
              (''arrivalTime'', JString (arrivalTime f)),
              (''status'', JString (status f)),
              (''gate'', JString (gate f))]"

definition Flights_json :: "Flight list \<Rightarrow> json" where
  "Flights_json fs = JArray (map Flight_json fs)"

text \<open>
  What a call of the handler amounts to: the response, and the milliseconds it
  awaited on its timer before completing.
\<close>

record Completion =
  awaitedMs :: nat
  response :: Response

text \<open>
  The response of the early return, with no time awaited on the timer.
\<close>

definition flightNumberRequired :: Completion where
  "flightNumberRequired =
     \<lparr> awaitedMs = 0,
       response = NextResponse_json
         (JObject [(''error'', JString ''Flight number is required'')]) (Some 400) \<rparr>"

text \<open>
  \<^verbatim>\<open>GET\<close>, with the array it filters as a parameter; the exported handler is
  the instance at \<^verbatim>\<open>MOCK_FLIGHTS\<close>. The test \<^verbatim>\<open>!flightNumber\<close> on a value of
  type \<^verbatim>\<open>string | null\<close> holds of \<^verbatim>\<open>null\<close> and of the empty string; the
  early return comes before the filter and before the timer.
\<close>

definition GET_on :: "Flight list \<Rightarrow> 'a Request_scheme \<Rightarrow> Completion" where
  "GET_on store request =
     (case URLSearchParams_get (searchParams request) ''flightNumber'' of
        None \<Rightarrow> flightNumberRequired
      | Some flightNumber' \<Rightarrow>
          if flightNumber' = [] then flightNumberRequired
          else
            \<lparr> awaitedMs = 800,
              response = NextResponse_json (Flights_json (matches flightNumber' store)) None \<rparr>)"

definition GET :: "'a Request_scheme \<Rightarrow> Completion" where
  "GET request = GET_on MOCK_FLIGHTS request"


section \<open>The duration shown by the flight card\<close>

text \<open>
  \<^verbatim>\<open>new Date(s).getTime()\<close> for the date-time form the stored records use,
  \<^verbatim>\<open>YYYY-MM-DDTHH:mm:ssZ\<close>: the milliseconds since 1970-01-01T00:00:00Z, by the
  day arithmetic of the language definition. The result is \<open>None\<close> for a string
  that is not of this form with a calendar date and a time of day below 24:00:00.
\<close>

definition digitValue :: "char \<Rightarrow> nat option" where
  "digitValue c =
     (let n = (of_char c :: nat) in if 48 \<le> n \<and> n \<le> 57 then Some (n - 48) else None)"

fun digitsValue :: "nat \<Rightarrow> string \<Rightarrow> nat option" where
  "digitsValue acc [] = Some acc"
| "digitsValue acc (c # cs) =
     (case digitValue c of None \<Rightarrow> None | Some d \<Rightarrow> digitsValue (10 * acc + d) cs)"

definition InLeapYear :: "nat \<Rightarrow> bool" where
  "InLeapYear y = (y mod 4 = 0 \<and> (y mod 100 \<noteq> 0 \<or> y mod 400 = 0))"

definition DayFromYear :: "nat \<Rightarrow> int" where
  "DayFromYear y =
     365 * (int y - 1970) + (int y - 1969) div 4 - (int y - 1901) div 100
       + (int y - 1601) div 400"

definition DaysInMonth :: "nat \<Rightarrow> nat \<Rightarrow> nat" where
  "DaysInMonth y m =
     (if m = 2 then (if InLeapYear y then 29 else 28)
      else if m = 4 \<or> m = 6 \<or> m = 9 \<or> m = 11 then 30 else 31)"

definition DaysBeforeMonth :: "nat \<Rightarrow> nat \<Rightarrow> nat" where
  "DaysBeforeMonth y m = sum_list (map (DaysInMonth y) [1..<m])"

definition MakeDay :: "nat \<Rightarrow> nat \<Rightarrow> nat \<Rightarrow> int" where
  "MakeDay y m d = DayFromYear y + int (DaysBeforeMonth y m) + int d - 1"

definition MakeTime :: "nat \<Rightarrow> nat \<Rightarrow> nat \<Rightarrow> int" where
  "MakeTime h mi s = int h * 3600000 + int mi * 60000 + int s * 1000"

definition Date_getTime :: "string \<Rightarrow> int option" where
  "Date_getTime s =
     (if length s = 20 \<and> s ! 4 = CHR ''-'' \<and> s ! 7 = CHR ''-'' \<and> s ! 10 = CHR ''T''
         \<and> s ! 13 = CHR '':'' \<and> s ! 16 = CHR '':'' \<and> s ! 19 = CHR ''Z''
      then
        (case (digitsValue 0 (take 4 s),
               digitsValue 0 (take 2 (drop 5 s)),
               digitsValue 0 (take 2 (drop 8 s)),
               digitsValue 0 (take 2 (drop 11 s)),
               digitsValue 0 (take 2 (drop 14 s)),
               digitsValue 0 (take 2 (drop 17 s))) of
           (Some y, Some m, Some d, Some h, Some mi, Some se) \<Rightarrow>
             if 1 \<le> m \<and> m \<le> 12 \<and> 1 \<le> d \<and> d \<le> DaysInMonth y m
                \<and> h \<le> 23 \<and> mi \<le> 59 \<and> se \<le> 59
             then Some (MakeDay y m d * 86400000 + MakeTime h mi se)
             else None
         | _ \<Rightarrow> None)
      else None)"

text \<open>
  The arithmetic of \<^verbatim>\<open>FlightCard\<close>, on whole numbers of milliseconds. The
  operator \<^verbatim>\<open>%\<close>, here for a right operand other than zero, takes the sign of
  its left operand; \<^verbatim>\<open>Math.floor\<close> of a quotient by a positive divisor is
  \<open>div\<close> on \<^typ>\<open>int\<close>. An unreadable time makes the difference \<^verbatim>\<open>NaN\<close>,
  here \<open>None\<close>.
\<close>

definition js_rem :: "int \<Rightarrow> int \<Rightarrow> int" where
  "js_rem a b = sgn a * (\<bar>a\<bar> mod \<bar>b\<bar>)"

definition durationMs :: "Flight \<Rightarrow> int option" where
  "durationMs flight =
     (case (Date_getTime (departureTime flight), Date_getTime (arrivalTime flight)) of
        (Some departureDate, Some arrivalDate) \<Rightarrow> Some (arrivalDate - departureDate)
      | _ \<Rightarrow> None)"

definition hours :: "int \<Rightarrow> int" where
  "hours d = d div 3600000"

definition minutes :: "int \<Rightarrow> int" where
  "minutes d = js_rem d 3600000 div 60000"


section \<open>Properties of the matcher\<close>

lemma startsAt_iff: "startsAt s q \<longleftrightarrow> (\<exists>post. s = q @ post)"
  by (induction s q rule: startsAt.induct) auto

lemma String_includes_iff:
  "String_includes s q \<longleftrightarrow> (\<exists>pre post. s = pre @ q @ post)"
proof (induction s)
  case Nil
  show ?case by auto
next
  case (Cons c cs)
  have "(\<exists>pre post. c # cs = pre @ q @ post) \<longleftrightarrow>
        (\<exists>post. c # cs = q @ post) \<or> (\<exists>pre post. cs = pre @ q @ post)"
    (is "?L \<longleftrightarrow> ?P \<or> ?R")
  proof
    assume ?L
    then obtain pre post where eq: "c # cs = pre @ q @ post" by blast
    show "?P \<or> ?R"
    proof (cases pre)
      case Nil
      with eq show ?thesis by auto
    next
      case (Cons p ps)
      with eq have "cs = ps @ q @ post" by simp
      then show ?thesis by blast
    qed
  next
    assume "?P \<or> ?R"
    then show ?L
    proof
      assume ?P
      then obtain post where "c # cs = [] @ q @ post" by auto
      then show ?L by blast
    next
      assume ?R
      then obtain pre post where "c # cs = (c # pre) @ q @ post" by auto
      then show ?L by blast
    qed
  qed
  with Cons show ?case by (simp add: startsAt_iff)
qed

lemma String_includes_Nil [simp]: "String_includes s []"
  by (cases s) simp_all

lemma mem_matches_iff:
  "f \<in> set (matches q store) \<longleftrightarrow>
     f \<in> set store \<and> String_includes (toLowerCase (flightNumber f)) (toLowerCase q)"
  by (simp add: matches_def)

text \<open>Lower-casing the flight numbers of the stored records and the sample queries.\<close>

lemma toLowerCase_AA123: "toLowerCase ''AA123'' = ''aa123''"
  by code_simp

lemma toLowerCase_UA456: "toLowerCase ''UA456'' = ''ua456''"
  by code_simp

lemma toLowerCase_DL789: "toLowerCase ''DL789'' = ''dl789''"
  by code_simp

lemma toLowerCase_aa: "toLowerCase ''aa'' = ''aa''"
  by code_simp

lemma toLowerCase_ZZ999: "toLowerCase ''ZZ999'' = ''zz999''"
  by code_simp

lemmas toLowerCase_samples =
  toLowerCase_AA123 toLowerCase_UA456 toLowerCase_DL789 toLowerCase_aa toLowerCase_ZZ999

lemma matches_seed_AA123: "matches ''AA123'' MOCK_FLIGHTS = [MOCK_FLIGHTS ! 0]"
  by (simp add: matches_def MOCK_FLIGHTS_def toLowerCase_samples)

lemma matches_seed_aa: "matches ''aa'' MOCK_FLIGHTS = [MOCK_FLIGHTS ! 0]"
  by (simp add: matches_def MOCK_FLIGHTS_def toLowerCase_samples)

lemma matches_seed_ZZ999: "matches ''ZZ999'' MOCK_FLIGHTS = []"
  by (simp add: matches_def MOCK_FLIGHTS_def toLowerCase_samples)

text \<open>
  C1. For a non-empty query \<open>q\<close> and a flight \<open>f\<close> of the store, \<open>f\<close> is in
  \<open>matches q store\<close> exactly when the lower-cased flight number of \<open>f\<close> contains
  the lower-cased \<open>q\<close> as a contiguous substring, at any position.
\<close>

theorem matches_iff_contains:
  assumes "q \<noteq> []" and "f \<in> set store"
  shows "f \<in> set (matches q store) \<longleftrightarrow>
           (\<exists>pre post. toLowerCase (flightNumber f) = pre @ toLowerCase q @ post)"
  using assms(2) by (simp add: mem_matches_iff String_includes_iff)

theorem matches_iff_contains_witness:
  "''aa'' \<noteq> [] \<and> MOCK_FLIGHTS ! 0 \<in> set MOCK_FLIGHTS \<and>
   (MOCK_FLIGHTS ! 0 \<in> set (matches ''aa'' MOCK_FLIGHTS) \<longleftrightarrow>
      (\<exists>pre post. toLowerCase (flightNumber (MOCK_FLIGHTS ! 0)) = pre @ toLowerCase ''aa'' @ post))"
proof -
  have nonempty: "''aa'' \<noteq> []" by simp
  have stored: "MOCK_FLIGHTS ! 0 \<in> set MOCK_FLIGHTS" by (simp add: MOCK_FLIGHTS_def)
  from matches_iff_contains [OF nonempty stored] nonempty stored show ?thesis by blast
qed

text \<open>
  C2. When the \<^verbatim>\<open>flightNumber\<close> parameter is absent or is the empty string, the
  handler answers 400 with the body \<^verbatim>\<open>{"error": "Flight number is required"}\<close>,
  whatever else the request carries. The answer is the same for every store and no
  time is awaited: the handler returns before the filter and the timer.
\<close>

theorem missing_flightNumber_is_400:
  assumes "URLSearchParams_get (searchParams request) ''flightNumber'' = None
         \<or> URLSearchParams_get (searchParams request) ''flightNumber'' = Some []"
  shows "GET_on store request =
           \<lparr> awaitedMs = 0,
             response = \<lparr> http_status = 400,
                          http_body = JObject [(''error'', JString ''Flight number is required'')] \<rparr> \<rparr>
       \<and> GET request = GET_on store request"
  using assms
  by (auto simp add: GET_def GET_on_def flightNumberRequired_def NextResponse_json_def)

theorem missing_flightNumber_is_400_witness:
  "URLSearchParams_get [(''airline'', ''Delta'')] ''flightNumber'' = None \<and>
   GET_on MOCK_FLIGHTS \<lparr> searchParams = [(''airline'', ''Delta'')] \<rparr> =
     \<lparr> awaitedMs = 0,
       response = \<lparr> http_status = 400,
                    http_body = JObject [(''error'', JString ''Flight number is required'')] \<rparr> \<rparr> \<and>
   URLSearchParams_get [(''flightNumber'', []), (''flightNumber'', ''AA123'')] ''flightNumber''
     = Some [] \<and>
   GET_on MOCK_FLIGHTS \<lparr> searchParams = [(''flightNumber'', []), (''flightNumber'', ''AA123'')] \<rparr> =
     \<lparr> awaitedMs = 0,
       response = \<lparr> http_status = 400,
                    http_body = JObject [(''error'', JString ''Flight number is required'')] \<rparr> \<rparr>"
proof -
  have absent: "URLSearchParams_get [(''airline'', ''Delta'')] ''flightNumber'' = None"
    by simp
  have empty:
    "URLSearchParams_get [(''flightNumber'', []), (''flightNumber'', ''AA123'')] ''flightNumber''
       = Some []"
    by simp
  have "URLSearchParams_get (searchParams \<lparr> searchParams = [(''airline'', ''Delta'')] \<rparr>)
          ''flightNumber'' = None
      \<or> URLSearchParams_get (searchParams \<lparr> searchParams = [(''airline'', ''Delta'')] \<rparr>)
          ''flightNumber'' = Some []"
    using absent by simp
  note first = missing_flightNumber_is_400 [OF this, of MOCK_FLIGHTS]
  have "URLSearchParams_get
          (searchParams \<lparr> searchParams = [(''flightNumber'', []), (''flightNumber'', ''AA123'')] \<rparr>)
          ''flightNumber'' = None
      \<or> URLSearchParams_get
          (searchParams \<lparr> searchParams = [(''flightNumber'', []), (''flightNumber'', ''AA123'')] \<rparr>)
          ''flightNumber'' = Some []"
    using empty by simp
  note second = missing_flightNumber_is_400 [OF this, of MOCK_FLIGHTS]
  from first second absent empty show ?thesis by blast
qed

text \<open>
  C3. The matcher keeps the order of the store and is idempotent: its result is a
  subsequence of the store (records are dropped, never moved or added), and matching
  the result again with the same query changes nothing. The matcher is a function of
  the query and the store alone and leaves the store as it was, so a second call on the
  unchanged store returns the same sequence.
\<close>

theorem matches_subseq_idempotent:
  "subseq (matches q store) store \<and> matches q (matches q store) = matches q store"
  by (simp add: matches_def)

text \<open>
  C4. A request with a non-empty \<^verbatim>\<open>flightNumber\<close> that matches no record of the
  store is answered with status 200 and the empty array, not with an error; the
  query \<^verbatim>\<open>ZZ999\<close> against the seed records is such a request.
\<close>

theorem no_match_is_200_empty:
  "(URLSearchParams_get (searchParams request) ''flightNumber'' = Some q \<and> q \<noteq> []
      \<and> matches q store = []
    \<longrightarrow> GET_on store request =
          \<lparr> awaitedMs = 800, response = \<lparr> http_status = 200, http_body = JArray [] \<rparr> \<rparr>)
   \<and> GET \<lparr> searchParams = [(''flightNumber'', ''ZZ999'')] \<rparr> =
          \<lparr> awaitedMs = 800, response = \<lparr> http_status = 200, http_body = JArray [] \<rparr> \<rparr>"
  by (simp add: GET_def GET_on_def NextResponse_json_def Flights_json_def matches_seed_ZZ999)

theorem no_match_is_200_empty_witness:
  "URLSearchParams_get [(''flightNumber'', ''ZZ999'')] ''flightNumber'' = Some ''ZZ999'' \<and>
   ''ZZ999'' \<noteq> [] \<and> matches ''ZZ999'' MOCK_FLIGHTS = [] \<and>
   GET_on MOCK_FLIGHTS \<lparr> searchParams = [(''flightNumber'', ''ZZ999'')] \<rparr> =
     \<lparr> awaitedMs = 800, response = \<lparr> http_status = 200, http_body = JArray [] \<rparr> \<rparr>"
proof -
  have param:
    "URLSearchParams_get (searchParams \<lparr> searchParams = [(''flightNumber'', ''ZZ999'')] \<rparr>)
       ''flightNumber'' = Some ''ZZ999''"
    by simp
  have nonempty: "''ZZ999'' \<noteq> []" by simp
  note general = conjunct1 [OF no_match_is_200_empty
      [of "\<lparr> searchParams = [(''flightNumber'', ''ZZ999'')] \<rparr>" "''ZZ999''" MOCK_FLIGHTS]]
  from general param nonempty matches_seed_ZZ999
  have "GET_on MOCK_FLIGHTS \<lparr> searchParams = [(''flightNumber'', ''ZZ999'')] \<rparr> =
     \<lparr> awaitedMs = 800, response = \<lparr> http_status = 200, http_body = JArray [] \<rparr> \<rparr>"
    by blast
  with param nonempty matches_seed_ZZ999 show ?thesis by simp
qed

text \<open>
  C5. Against the seed records, the query \<^verbatim>\<open>AA123\<close> returns exactly one record,
  the one with flight number \<^verbatim>\<open>AA123\<close>; the query \<^verbatim>\<open>aa\<close> returns a result
  that holds that record.
\<close>

theorem seed_scenarios:
  "map flightNumber (matches ''AA123'' MOCK_FLIGHTS) = [''AA123''] \<and>
   matches ''AA123'' MOCK_FLIGHTS = [MOCK_FLIGHTS ! 0] \<and>
   flightNumber (MOCK_FLIGHTS ! 0) = ''AA123'' \<and>
   MOCK_FLIGHTS ! 0 \<in> set (matches ''aa'' MOCK_FLIGHTS)"
  by (simp add: matches_seed_AA123 matches_seed_aa) (simp add: MOCK_FLIGHTS_def)

text \<open>
  C6. For every store, the matcher applied to the empty query returns the whole
  store: every flight number contains the empty string.
\<close>

theorem matches_empty_query: "matches [] store = store"
  by (simp add: matches_def toLowerCase_def)

text \<open>
  C7. Flight numbers need not be unique. When the flight number of a record \<open>f\<close>
  passes the test for the query, the result holds every record of the store with that
  flight number, as often and in the order the store has them; in particular \<open>f\<close>
  occurs in the result as many times as in the store.
\<close>

theorem duplicates_all_returned:
  assumes "String_includes (toLowerCase (flightNumber f)) (toLowerCase q)"
  shows "filter (\<lambda>g. flightNumber g = flightNumber f) (matches q store)
           = filter (\<lambda>g. flightNumber g = flightNumber f) store
       \<and> count_list (matches q store) f = count_list store f"
proof
  show "filter (\<lambda>g. flightNumber g = flightNumber f) (matches q store)
           = filter (\<lambda>g. flightNumber g = flightNumber f) store"
    using assms by (induction store) (auto simp add: matches_def)
  show "count_list (matches q store) f = count_list store f"
    using assms by (induction store) (simp_all add: matches_def)
qed

theorem duplicates_all_returned_witness:
  "String_includes (toLowerCase (flightNumber (MOCK_FLIGHTS ! 0))) (toLowerCase ''aa'') \<and>
   count_list
     (matches ''aa'' [MOCK_FLIGHTS ! 0, MOCK_FLIGHTS ! 1, MOCK_FLIGHTS ! 0]) (MOCK_FLIGHTS ! 0) = 2 \<and>
   filter (\<lambda>g. flightNumber g = flightNumber (MOCK_FLIGHTS ! 0))
     (matches ''aa'' [MOCK_FLIGHTS ! 0, MOCK_FLIGHTS ! 1, MOCK_FLIGHTS ! 0])
     = [MOCK_FLIGHTS ! 0, MOCK_FLIGHTS ! 0]"
proof -
  have passes:
    "String_includes (toLowerCase (flightNumber (MOCK_FLIGHTS ! 0))) (toLowerCase ''aa'')"
    by (simp add: MOCK_FLIGHTS_def toLowerCase_samples)
  have in_store:
    "count_list [MOCK_FLIGHTS ! 0, MOCK_FLIGHTS ! 1, MOCK_FLIGHTS ! 0] (MOCK_FLIGHTS ! 0) = 2"
    "filter (\<lambda>g. flightNumber g = flightNumber (MOCK_FLIGHTS ! 0))
       [MOCK_FLIGHTS ! 0, MOCK_FLIGHTS ! 1, MOCK_FLIGHTS ! 0]
       = [MOCK_FLIGHTS ! 0, MOCK_FLIGHTS ! 0]"
    by (simp_all add: MOCK_FLIGHTS_def)
  from duplicates_all_returned
         [OF passes, of "[MOCK_FLIGHTS ! 0, MOCK_FLIGHTS ! 1, MOCK_FLIGHTS ! 0]"]
       passes in_store
  show ?thesis by presburger
qed

text \<open>
  C8. Building the response passes the matched records through and never fails. For
  every sequence of flights, the empty one included, the response has status 200 and
  its body is the array of the flights' objects, one for each flight and in the same
  order; each object has the eight properties of the record under their own names,
  the locations nested, and two flights that differ give two objects that differ. The
  handler answers every request with a non-empty \<^verbatim>\<open>flightNumber\<close> this way.
\<close>

theorem response_is_passthrough:
  "NextResponse_json (Flights_json flights) None =
     \<lparr> http_status = 200, http_body = JArray (map Flight_json flights) \<rparr>
   \<and> length (map Flight_json flights) = length flights
   \<and> inj Flight_json
   \<and> Flight_json flight =
       JObject [(''flightNumber'', JString (flightNumber flight)),
                (''airline'', JString (airline flight)),
                (''origin'', JObject [(''code'', JString (code (origin flight))),
                                      (''city'', JString (city (origin flight))),
                                      (''terminal'', JString (terminal (origin flight)))]),
                (''destination'', JObject [(''code'', JString (code (destination flight))),
                                           (''city'', JString (city (destination flight))),
                                           (''terminal'', JString (terminal (destination flight)))]),
                (''departureTime'', JString (departureTime flight)),
                (''arrivalTime'', JString (arrivalTime flight)),
                (''status'', JString (status flight)),
                (''gate'', JString (gate flight))]
   \<and> (URLSearchParams_get (searchParams request) ''flightNumber'' = Some q \<and> q \<noteq> []
        \<longrightarrow> response (GET_on store request) =
              \<lparr> http_status = 200, http_body = JArray (map Flight_json (matches q store)) \<rparr>)"
proof (intro conjI)
  show "inj Flight_json"
  proof (rule injI)
    fix a b :: Flight
    assume "Flight_json a = Flight_json b"
    then show "a = b"
      by (simp add: Flight_json_def FlightLocation_json_def)
  qed
qed (simp_all add: NextResponse_json_def Flights_json_def Flight_json_def
       FlightLocation_json_def GET_on_def)

theorem response_is_passthrough_witness:
  "URLSearchParams_get [(''flightNumber'', ''aa'')] ''flightNumber'' = Some ''aa'' \<and>
   ''aa'' \<noteq> [] \<and>
   response (GET_on MOCK_FLIGHTS \<lparr> searchParams = [(''flightNumber'', ''aa'')] \<rparr>) =
     \<lparr> http_status = 200,
       http_body = JArray
         [JObject [(''flightNumber'', JString ''AA123''),
                   (''airline'', JString ''American Airlines''),
                   (''origin'', JObject [(''code'', JString ''JFK''),
                                         (''city'', JString ''New York''),
                                         (''terminal'', JString ''8'')]),
                   (''destination'', JObject [(''code'', JString ''LHR''),
                                              (''city'', JString ''London''),
                                              (''terminal'', JString ''3'')]),
                   (''departureTime'', JString ''2025-12-08T18:00:00Z''),
                   (''arrivalTime'', JString ''2025-12-09T06:00:00Z''),
                   (''status'', JString ''On Time''),
                   (''gate'', JString ''B12'')]] \<rparr>"
proof -
  let ?request = "\<lparr> searchParams = [(''flightNumber'', ''aa'')] \<rparr>"
  have param: "URLSearchParams_get (searchParams ?request) ''flightNumber'' = Some ''aa''"
    by simp
  have nonempty: "''aa'' \<noteq> []" by simp
  note all = response_is_passthrough [of _ "MOCK_FLIGHTS ! 0" ?request "''aa''" MOCK_FLIGHTS]
  from all param nonempty
  have "response (GET_on MOCK_FLIGHTS ?request) =
          \<lparr> http_status = 200,
            http_body = JArray (map Flight_json (matches ''aa'' MOCK_FLIGHTS)) \<rparr>"
    by blast
  moreover from all have "Flight_json (MOCK_FLIGHTS ! 0) =
       JObject [(''flightNumber'', JString (flightNumber (MOCK_FLIGHTS ! 0))),
                (''airline'', JString (airline (MOCK_FLIGHTS ! 0))),
                (''origin'', JObject [(''code'', JString (code (origin (MOCK_FLIGHTS ! 0)))),
                                      (''city'', JString (city (origin (MOCK_FLIGHTS ! 0)))),
                                      (''terminal'', JString (terminal (origin (MOCK_FLIGHTS ! 0))))]),
                (''destination'', JObject [(''code'', JString (code (destination (MOCK_FLIGHTS ! 0)))),
                                           (''city'', JString (city (destination (MOCK_FLIGHTS ! 0)))),
                                           (''terminal'', JString (terminal (destination (MOCK_FLIGHTS ! 0))))]),
                (''departureTime'', JString (departureTime (MOCK_FLIGHTS ! 0))),
                (''arrivalTime'', JString (arrivalTime (MOCK_FLIGHTS ! 0))),
                (''status'', JString (status (MOCK_FLIGHTS ! 0))),
                (''gate'', JString (gate (MOCK_FLIGHTS ! 0)))]"
    by blast
  ultimately show ?thesis
    using param nonempty by (simp add: matches_seed_aa) (simp add: MOCK_FLIGHTS_def)
qed

text \<open>The times of the seed records, read as \<^verbatim>\<open>Date\<close> reads them.\<close>

lemma DaysBeforeMonth_December_2025: "DaysBeforeMonth 2025 12 = 334"
  unfolding DaysBeforeMonth_def by code_simp

lemma Date_getTime_seed:
  "Date_getTime ''2025-12-08T18:00:00Z'' = Some 1765216800000"
  "Date_getTime ''2025-12-09T06:00:00Z'' = Some 1765260000000"
  "Date_getTime ''2025-12-08T11:00:00Z'' = Some 1765191600000"
  "Date_getTime ''2025-12-09T15:00:00Z'' = Some 1765292400000"
  "Date_getTime ''2025-12-08T20:30:00Z'' = Some 1765225800000"
  "Date_getTime ''2025-12-09T10:45:00Z'' = Some 1765277100000"
  by (simp_all add: Date_getTime_def digitValue_def MakeTime_def MakeDay_def DayFromYear_def
        DaysBeforeMonth_December_2025 DaysInMonth_def InLeapYear_def)

text \<open>
  C9. Every seed record arrives strictly after it departs: both times are readable,
  the arrival is the later one, and the duration the flight card computes from them is
  strictly positive: 12 h, 28 h and 14 h 15 min, which the card shows as hours and
  minutes.
\<close>

theorem seed_arrival_after_departure:
  "list_all (\<lambda>f. \<exists>d a. Date_getTime (departureTime f) = Some d
                      \<and> Date_getTime (arrivalTime f) = Some a
                      \<and> d < a \<and> durationMs f = Some (a - d) \<and> 0 < a - d) MOCK_FLIGHTS
   \<and> map durationMs MOCK_FLIGHTS = [Some 43200000, Some 100800000, Some 51300000]
   \<and> map (\<lambda>f. map_option (\<lambda>d. (hours d, minutes d)) (durationMs f)) MOCK_FLIGHTS
       = [Some (12, 0), Some (28, 0), Some (14, 15)]"
  by (simp add: MOCK_FLIGHTS_def durationMs_def Date_getTime_seed hours_def minutes_def
        js_rem_def)

lemma at_most_one_of_distinct:
  "distinct (map g xs) \<Longrightarrow> length (filter (\<lambda>x. g x = n) xs) \<le> 1"
proof (induction xs)
  case Nil
  show ?case by simp
next
  case (Cons x xs)
  show ?case
  proof (cases "g x = n")
    case True
    with Cons.prems have "\<forall>y \<in> set xs. g y \<noteq> n" by (force simp: image_iff)
    then have "filter (\<lambda>x. g x = n) xs = []" by (simp add: filter_empty_conv)
    with True show ?thesis by simp
  next
    case False
    with Cons show ?thesis by simp
  qed
qed

text \<open>
  C10. The seed records have the flight numbers \<^verbatim>\<open>AA123\<close>, \<^verbatim>\<open>UA456\<close> and
  \<^verbatim>\<open>DL789\<close>, which are pairwise distinct; so for every query the flight numbers
  of the matched seed records are pairwise distinct, and at most one matched record has
  any given flight number.
\<close>

theorem seed_flightNumbers_distinct:
  "map flightNumber MOCK_FLIGHTS = [''AA123'', ''UA456'', ''DL789'']
   \<and> distinct (map flightNumber MOCK_FLIGHTS)
   \<and> distinct (map flightNumber (matches q MOCK_FLIGHTS))
   \<and> length (filter (\<lambda>f. flightNumber f = n) (matches q MOCK_FLIGHTS)) \<le> 1"
proof -
  have numbers: "map flightNumber MOCK_FLIGHTS = [''AA123'', ''UA456'', ''DL789'']"
    by (simp add: MOCK_FLIGHTS_def)
  then have seed: "distinct (map flightNumber MOCK_FLIGHTS)"
    by simp
  then have matched: "distinct (map flightNumber (matches q MOCK_FLIGHTS))"
    unfolding matches_def by (rule distinct_map_filter)
  from numbers seed matched at_most_one_of_distinct [OF matched] show ?thesis
    by simp
qed

end
